theory Spec2Isabelle
  imports Main "HOL-Library.Word"
begin

unbundle bit_operations_syntax

section \<open>The two-wire bus and the chip behind it\<close>

text \<open>
  \<^verbatim>\<open>SerialRAM.cpp\<close> drives a Microchip 47x04/47x16 EERAM through the global
  \<^verbatim>\<open>Wire\<close> object of the Arduino core. Neither the \<^verbatim>\<open>Wire\<close> library nor the
  chip is part of the repository, so both are modelled here, as small as the driver's
  calls need them.

  Every call the driver makes on \<^verbatim>\<open>Wire\<close> is appended to \<open>calls\<close>, so that
  "no bus transaction" and "exactly these bytes" are statements about that list.
\<close>

datatype wire_call =
    CallBegin
  | CallBeginTransmission "8 word"
  | CallWrite "8 word"
  | CallEndTransmission
  | CallRequestFrom "8 word" nat
  | CallRead

text \<open>
  Modelled from the spec: the chip is not in the repository. The spec describes a data
  register bank (an SRAM array shadowed by an EEPROM array, addressed by a 16-bit
  offset sent high byte first), and a control register bank holding one status byte
  with bits 0 (event), 1 (auto-store), 2-4 (write-protect level) and 7 (array
  mismatch), reached with the selector byte \<open>0x00\<close>; the selector \<open>0x55\<close> takes the
  commands \<open>0x33\<close> (store) and \<open>0xDD\<close> (recall). The chip answers on two bus
  addresses. An array of \<open>array_bytes\<close> cells ignores the offset bits above its size.
  The write-protect level is stored and read back; what it protects is not described
  by the spec and is not modelled.
\<close>

record eeram =
  data_address :: "8 word"
  control_address :: "8 word"
  array_bytes :: nat
  sram :: "nat \<Rightarrow> 8 word"
  eeprom :: "nat \<Rightarrow> 8 word"
  pointer :: "16 word"
  status :: "8 word"

definition cell :: "eeram \<Rightarrow> 16 word \<Rightarrow> nat" where
  "cell c p = unat p mod array_bytes c"

fun chip_store_bytes :: "8 word list \<Rightarrow> eeram \<Rightarrow> eeram" where
  "chip_store_bytes [] c = c"
| "chip_store_bytes (b # bs) c =
     chip_store_bytes bs
       (c\<lparr>sram := (sram c)(cell c (pointer c) := b),
          pointer := pointer c + 1,
          status := status c OR 0x80\<rparr>)"

fun chip_fetch_bytes :: "nat \<Rightarrow> eeram \<Rightarrow> 8 word list \<times> eeram" where
  "chip_fetch_bytes 0 c = ([], c)"
| "chip_fetch_bytes (Suc n) c =
     (let (bs, c') = chip_fetch_bytes n (c\<lparr>pointer := pointer c + 1\<rparr>)
      in (sram c (cell c (pointer c)) # bs, c'))"

definition chip_command :: "8 word \<Rightarrow> eeram \<Rightarrow> eeram" where
  "chip_command b c =
     (if b = 0x33 then c\<lparr>eeprom := sram c, status := status c AND 0x7f\<rparr>
      else if b = 0xdd then c\<lparr>sram := eeprom c, status := status c AND 0x7f\<rparr>
      else c)"

text \<open>
  What the chip does with the bytes of one write transaction, and the status
  \<^verbatim>\<open>Wire.endTransmission()\<close> reports for it: 0 when the chip acknowledged, 2 when no
  chip answered at the address.
\<close>

definition chip_receive :: "8 word \<Rightarrow> 8 word list \<Rightarrow> eeram \<Rightarrow> 8 word \<times> eeram" where
  "chip_receive address bytes c =
     (if address = data_address c then
        (case bytes of
           hi # lo # payload \<Rightarrow>
             (0, chip_store_bytes payload (c\<lparr>pointer := word_cat hi lo\<rparr>))
         | _ \<Rightarrow> (0, c))
      else if address = control_address c then
        (case bytes of
           [reg, b] \<Rightarrow>
             (if reg = 0x00 then
                (0, c\<lparr>status := (status c AND 0x80) OR (b AND 0x1f)\<rparr>)
              else if reg = 0x55 then (0, chip_command b c)
              else (0, c))
         | _ \<Rightarrow> (0, c))
      else (2, c))"

definition chip_transmit :: "8 word \<Rightarrow> nat \<Rightarrow> eeram \<Rightarrow> 8 word list \<times> eeram" where
  "chip_transmit address n c =
     (if address = data_address c then chip_fetch_bytes n c
      else if address = control_address c then (replicate n (status c), c)
      else ([], c))"

text \<open>
  Modelled from the spec: the bus transport (\<^verbatim>\<open>Wire\<close>, Arduino's \<^verbatim>\<open>TwoWire\<close>) is
  an external collaborator with the primitives begin, start-transmission-to-address,
  write-byte, end-transmission-with-status, request-bytes-from-address and read-byte.
  Written bytes are buffered (at most \<open>BUFFER_LENGTH\<close> of them, the rest is dropped)
  until end-transmission hands them to the chip and empties the buffer; a request takes
  its quantity as a \<^verbatim>\<open>uint8_t\<close>, at most \<open>BUFFER_LENGTH\<close>, and buffers what the
  chip sends until it is read; reading an empty buffer gives \<open>-1\<close>, which is \<open>0xFF\<close>
  in a \<^verbatim>\<open>uint8_t\<close>.
\<close>

record TwoWire =
  calls :: "wire_call list"
  txAddress :: "8 word"
  txBuffer :: "8 word list"
  rxBuffer :: "8 word list"
  chip :: eeram

definition BUFFER_LENGTH :: nat where
  "BUFFER_LENGTH = 32"

definition Wire_begin :: "TwoWire \<Rightarrow> TwoWire" where
  "Wire_begin w = w\<lparr>calls := calls w @ [CallBegin], txBuffer := [], rxBuffer := []\<rparr>"

definition Wire_beginTransmission :: "8 word \<Rightarrow> TwoWire \<Rightarrow> TwoWire" where
  "Wire_beginTransmission address w =
     w\<lparr>calls := calls w @ [CallBeginTransmission address],
       txAddress := address, txBuffer := []\<rparr>"

definition Wire_write :: "8 word \<Rightarrow> TwoWire \<Rightarrow> TwoWire" where
  "Wire_write b w =
     w\<lparr>calls := calls w @ [CallWrite b],
       txBuffer := (if length (txBuffer w) < BUFFER_LENGTH then txBuffer w @ [b]
                    else txBuffer w)\<rparr>"

definition Wire_endTransmission :: "TwoWire \<Rightarrow> 8 word \<times> TwoWire" where
  "Wire_endTransmission w =
     (let (st, c) = chip_receive (txAddress w) (txBuffer w) (chip w)
      in (st, w\<lparr>calls := calls w @ [CallEndTransmission], txBuffer := [], chip := c\<rparr>))"

definition Wire_requestFrom :: "8 word \<Rightarrow> nat \<Rightarrow> TwoWire \<Rightarrow> TwoWire" where
  "Wire_requestFrom address quantity w =
     (let (bs, c) = chip_transmit address (min (quantity mod 256) BUFFER_LENGTH) (chip w)
      in w\<lparr>calls := calls w @ [CallRequestFrom address quantity],
           rxBuffer := bs, chip := c\<rparr>)"

definition Wire_read :: "TwoWire \<Rightarrow> 8 word \<times> TwoWire" where
  "Wire_read w =
     (case rxBuffer w of
        [] \<Rightarrow> (0xff, w\<lparr>calls := calls w @ [CallRead]\<rparr>)
      | b # bs \<Rightarrow> (b, w\<lparr>calls := calls w @ [CallRead], rxBuffer := bs\<rparr>))"

section \<open>The driver: \<^verbatim>\<open>class SerialRAM\<close>\<close>

text \<open>
  The three private fields are \<^verbatim>\<open>int8_t\<close>; a word carries the same eight bits,
  \<open>sint\<close> reads them as the signed value and \<open>uint\<close> as the \<^verbatim>\<open>uint8_t\<close> the methods
  copy them into.
\<close>

record SerialRAM =
  SRAM_REGISTER :: "8 word"
  CONTROL_REGISTER :: "8 word"
  STORAGE_ARRAY_SIZE :: "8 word"

text \<open>
  \<^verbatim>\<open>union address16b { uint16_t a16; uint8_t a8[2]; }\<close> on the little-endian
  targets of the Arduino core: \<^verbatim>\<open>a8[0]\<close> is the low byte and \<^verbatim>\<open>a8[1]\<close> the high
  byte of \<^verbatim>\<open>a16\<close>. The driver reads no other index.
\<close>

definition a8 :: "16 word \<Rightarrow> nat \<Rightarrow> 8 word" where
  "a8 a16 i = (if i = 0 then ucast a16 else ucast (drop_bit 8 a16))"

text \<open>
  \<^verbatim>\<open>SerialRAM::begin\<close> (the name \<open>begin\<close> is reserved in Isabelle). The status
  comes first in the result, then the handle and the bus.
\<close>

definition SerialRAM_begin ::
  "8 word \<Rightarrow> 8 word \<Rightarrow> 8 word \<Rightarrow> SerialRAM \<Rightarrow> TwoWire \<Rightarrow> 8 word \<times> SerialRAM \<times> TwoWire" where
  "SerialRAM_begin A0 A1 SIZE this Wire =
     (let mask = (push_bit 1 A0) OR A1;
          mask = push_bit 1 mask;
          this = this\<lparr>SRAM_REGISTER := 0x50 OR mask\<rparr>;
          this = this\<lparr>CONTROL_REGISTER := 0x18 OR mask\<rparr>;
          Wire = Wire_begin Wire
      in if SIZE = 16 then (0, this\<lparr>STORAGE_ARRAY_SIZE := 0xf8\<rparr>, Wire)
         else if SIZE = 4 then (0, this\<lparr>STORAGE_ARRAY_SIZE := 0xfe\<rparr>, Wire)
         else (1, this\<lparr>STORAGE_ARRAY_SIZE := 0xf8\<rparr>, Wire))"

text \<open>\<^verbatim>\<open>SerialRAM::write(const uint16_t, const uint8_t)\<close>\<close>

definition SerialRAM_write ::
  "16 word \<Rightarrow> 8 word \<Rightarrow> SerialRAM \<Rightarrow> TwoWire \<Rightarrow> 8 word \<times> TwoWire" where
  "SerialRAM_write address val this Wire =
     (let arrSize = STORAGE_ARRAY_SIZE this
      in if a8 address 1 AND arrSize \<noteq> 0 then (5, Wire)
         else
           let Wire = Wire_beginTransmission (SRAM_REGISTER this) Wire;
               Wire = Wire_write (a8 address 1) Wire;
               Wire = Wire_write (a8 address 0) Wire;
               Wire = Wire_write val Wire
           in Wire_endTransmission Wire)"

text \<open>
  \<^verbatim>\<open>SerialRAM::read(const uint16_t)\<close>. Its only result is the byte; the status of
  neither \<^verbatim>\<open>endTransmission\<close> is kept.
\<close>

definition SerialRAM_read :: "16 word \<Rightarrow> SerialRAM \<Rightarrow> TwoWire \<Rightarrow> 8 word \<times> TwoWire" where
  "SerialRAM_read address this Wire =
     (let arrSize = STORAGE_ARRAY_SIZE this
      in if a8 address 1 AND arrSize \<noteq> 0 then (0, Wire)
         else
           let Wire = Wire_beginTransmission (SRAM_REGISTER this) Wire;
               Wire = Wire_write (a8 address 1) Wire;
               Wire = Wire_write (a8 address 0) Wire;
               Wire = snd (Wire_endTransmission Wire);
               Wire = Wire_requestFrom (SRAM_REGISTER this) 1 Wire;
               (buffer, Wire) = Wire_read Wire;
               Wire = snd (Wire_endTransmission Wire)
           in (buffer, Wire))"

definition readControlRegister :: "SerialRAM \<Rightarrow> TwoWire \<Rightarrow> 8 word \<times> TwoWire" where
  "readControlRegister this Wire =
     (let Wire = Wire_beginTransmission (CONTROL_REGISTER this) Wire;
          Wire = Wire_write 0x00 Wire;
          Wire = snd (Wire_endTransmission Wire);
          Wire = Wire_requestFrom (CONTROL_REGISTER this) 1 Wire;
          (buffer, Wire) = Wire_read Wire;
          Wire = snd (Wire_endTransmission Wire)
      in (buffer, Wire))"

definition setAutoStore :: "bool \<Rightarrow> SerialRAM \<Rightarrow> TwoWire \<Rightarrow> TwoWire" where
  "setAutoStore val this Wire =
     (let (buffer, Wire) = readControlRegister this Wire;
          buffer = (if val then buffer OR 0x02 else buffer AND 0xfd);
          Wire = Wire_beginTransmission (CONTROL_REGISTER this) Wire;
          Wire = Wire_write 0x00 Wire;
          Wire = Wire_write buffer Wire
      in snd (Wire_endTransmission Wire))"

definition getAutoStore :: "SerialRAM \<Rightarrow> TwoWire \<Rightarrow> bool \<times> TwoWire" where
  "getAutoStore this Wire =
     (let (buffer, Wire) = readControlRegister this Wire
      in (buffer AND 0x02 \<noteq> 0, Wire))"

definition setWriteProtect :: "8 word \<Rightarrow> SerialRAM \<Rightarrow> TwoWire \<Rightarrow> 8 word \<times> TwoWire" where
  "setWriteProtect prot this Wire =
     (let protectArea = prot
      in if protectArea AND 0xf8 \<noteq> 0 then (1, Wire)
         else
           let (buffer, Wire) = readControlRegister this Wire;
               buffer = (buffer AND 0xe3) OR (push_bit 2 protectArea);
               Wire = Wire_beginTransmission (CONTROL_REGISTER this) Wire;
               Wire = Wire_write 0x00 Wire;
               Wire = Wire_write buffer Wire;
               Wire = snd (Wire_endTransmission Wire)
           in (0, Wire))"

definition getWriteProtect :: "SerialRAM \<Rightarrow> TwoWire \<Rightarrow> 8 word \<times> TwoWire" where
  "getWriteProtect this Wire =
     (let (buffer, Wire) = readControlRegister this Wire
      in (drop_bit 2 (buffer AND 0x1c), Wire))"

definition setEventBit :: "bool \<Rightarrow> SerialRAM \<Rightarrow> TwoWire \<Rightarrow> TwoWire" where
  "setEventBit val this Wire =
     (let (buffer, Wire) = readControlRegister this Wire;
          buffer = (if val then buffer OR 0x01 else buffer AND 0xfe);
          Wire = Wire_beginTransmission (CONTROL_REGISTER this) Wire;
          Wire = Wire_write 0x00 Wire;
          Wire = Wire_write buffer Wire
      in snd (Wire_endTransmission Wire))"

definition getEventBit :: "SerialRAM \<Rightarrow> TwoWire \<Rightarrow> bool \<times> TwoWire" where
  "getEventBit this Wire =
     (let (buffer, Wire) = readControlRegister this Wire
      in (buffer AND 0x01 \<noteq> 0, Wire))"

text \<open>
  \<^verbatim>\<open>SerialRAM::getMatch\<close> in \<^verbatim>\<open>SerialRAM.cpp\<close>; the class declares it as
  \<^verbatim>\<open>getMatchStatus\<close>.
\<close>

definition getMatch :: "SerialRAM \<Rightarrow> TwoWire \<Rightarrow> bool \<times> TwoWire" where
  "getMatch this Wire =
     (let (buffer, Wire) = readControlRegister this Wire
      in (\<not> (buffer AND 0x80 \<noteq> 0), Wire))"

definition store :: "SerialRAM \<Rightarrow> TwoWire \<Rightarrow> TwoWire" where
  "store this Wire =
     (let Wire = Wire_beginTransmission (CONTROL_REGISTER this) Wire;
          Wire = Wire_write 0x55 Wire;
          Wire = Wire_write 0x33 Wire
      in snd (Wire_endTransmission Wire))"

definition recall :: "SerialRAM \<Rightarrow> TwoWire \<Rightarrow> TwoWire" where
  "recall this Wire =
     (let Wire = Wire_beginTransmission (CONTROL_REGISTER this) Wire;
          Wire = Wire_write 0x55 Wire;
          Wire = Wire_write 0xdd Wire
      in snd (Wire_endTransmission Wire))"

text \<open>
  \<^verbatim>\<open>SerialRAM::write(const uint16_t, const uint8_t*, const uint16_t)\<close>. The test is
  \<^verbatim>\<open>a.a8[1] & this->STORAGE_ARRAY_SIZE\<close>, on the two operands promoted to
  \<^verbatim>\<open>int\<close>: the byte zero-extended, the \<^verbatim>\<open>int8_t\<close> field sign-extended.
  \<^verbatim>\<open>Wire.write(values, size)\<close> writes the first \<open>size\<close> bytes at \<open>values\<close> one by
  one; the caller has to supply that many. The parameter \<open>size\<close> is \<open>size1\<close> here
  (\<open>size\<close> is a constant of HOL), the name of the copy the source makes of it.
\<close>

definition SerialRAM_write_values ::
  "16 word \<Rightarrow> 8 word list \<Rightarrow> 16 word \<Rightarrow> SerialRAM \<Rightarrow> TwoWire \<Rightarrow> 8 word \<times> TwoWire" where
  "SerialRAM_write_values address values size1 this Wire =
     (if uint (a8 address 1) AND sint (STORAGE_ARRAY_SIZE this) \<noteq> 0 then (5, Wire)
      else
        let Wire = Wire_beginTransmission (SRAM_REGISTER this) Wire;
            Wire = Wire_write (a8 address 1) Wire;
            Wire = Wire_write (a8 address 0) Wire;
            Wire = fold Wire_write (take (unat size1) values) Wire
        in Wire_endTransmission Wire)"

text \<open>The loop \<^verbatim>\<open>for (i = 0; i < size; i++) values[i] = Wire.read();\<close>\<close>

fun read_loop :: "nat \<Rightarrow> TwoWire \<Rightarrow> 8 word list \<times> TwoWire" where
  "read_loop 0 Wire = ([], Wire)"
| "read_loop (Suc n) Wire =
     (let (b, Wire) = Wire_read Wire;
          (bs, Wire) = read_loop n Wire
      in (b # bs, Wire))"

text \<open>
  \<^verbatim>\<open>SerialRAM::read(const uint16_t, uint8_t*, const uint16_t)\<close>. Here
  \<^verbatim>\<open>uint16_t arrSize = this->STORAGE_ARRAY_SIZE\<close> sign-extends the field to 16 bits.
  The function is declared \<^verbatim>\<open>uint8_t\<close> but only the out-of-bounds branch has a
  \<^verbatim>\<open>return\<close>: after the loop control flows off the end, and the value the caller
  receives is undefined. The model returns \<open>Some\<close> status where a \<^verbatim>\<open>return\<close> is
  executed and \<open>None\<close> where none is. The second component lists the bytes stored
  to \<^verbatim>\<open>values[0]\<close>, \<^verbatim>\<open>values[1]\<close>, ... (the caller's array has to hold \<open>size\<close>
  of them).
\<close>

definition SerialRAM_read_values ::
  "16 word \<Rightarrow> 16 word \<Rightarrow> SerialRAM \<Rightarrow> TwoWire \<Rightarrow> 8 word option \<times> 8 word list \<times> TwoWire" where
  "SerialRAM_read_values address size1 this Wire =
     (let arrSize = (scast (STORAGE_ARRAY_SIZE this) :: 16 word)
      in if (ucast (a8 address 1) :: 16 word) AND arrSize \<noteq> 0 then (Some 5, [], Wire)
         else
           let Wire = Wire_beginTransmission (SRAM_REGISTER this) Wire;
               Wire = Wire_write (a8 address 1) Wire;
               Wire = Wire_write (a8 address 0) Wire;
               Wire = snd (Wire_endTransmission Wire);
               Wire = Wire_requestFrom (SRAM_REGISTER this) (unat size1) Wire;
               (bytes, Wire) = read_loop (unat size1) Wire;
               Wire = snd (Wire_endTransmission Wire)
           in (None, bytes, Wire))"

section \<open>Running the driver\<close>

text \<open>
  The public methods other than \<^verbatim>\<open>begin\<close>, as calls on a handle and a bus. None of
  them assigns a field of the handle; each leaves the bus as its definition above says.
\<close>

datatype method_call =
    Write "16 word" "8 word"
  | Read "16 word"
  | SetAutoStore bool
  | GetAutoStore
  | Store
  | Recall
  | SetWriteProtect "8 word"
  | GetWriteProtect
  | SetEventBit bool
  | GetEventBit
  | GetMatch
  | WriteValues "16 word" "8 word list" "16 word"
  | ReadValues "16 word" "16 word"

fun invoke :: "method_call \<Rightarrow> SerialRAM \<times> TwoWire \<Rightarrow> SerialRAM \<times> TwoWire" where
  "invoke (Write address val) (this, Wire) = (this, snd (SerialRAM_write address val this Wire))"
| "invoke (Read address) (this, Wire) = (this, snd (SerialRAM_read address this Wire))"
| "invoke (SetAutoStore val) (this, Wire) = (this, setAutoStore val this Wire)"
| "invoke GetAutoStore (this, Wire) = (this, snd (getAutoStore this Wire))"
| "invoke Store (this, Wire) = (this, store this Wire)"
| "invoke Recall (this, Wire) = (this, recall this Wire)"
| "invoke (SetWriteProtect prot) (this, Wire) = (this, snd (setWriteProtect prot this Wire))"
| "invoke GetWriteProtect (this, Wire) = (this, snd (getWriteProtect this Wire))"
| "invoke (SetEventBit val) (this, Wire) = (this, setEventBit val this Wire)"
| "invoke GetEventBit (this, Wire) = (this, snd (getEventBit this Wire))"
| "invoke GetMatch (this, Wire) = (this, snd (getMatch this Wire))"
| "invoke (WriteValues address values size1) (this, Wire) =
     (this, snd (SerialRAM_write_values address values size1 this Wire))"
| "invoke (ReadValues address size1) (this, Wire) =
     (this, snd (snd (SerialRAM_read_values address size1 this Wire)))"

section \<open>What the specification says, in its own words\<close>

text \<open>
  The spec's invariant: \<open>mask = (A0<<1 | A1) << 1\<close>, \<open>data_bus_address = 0x50 | mask\<close>,
  \<open>control_bus_address = 0x18 | mask\<close>, on unbounded integers.
\<close>

definition spec_mask :: "int \<Rightarrow> int \<Rightarrow> int" where
  "spec_mask A0 A1 = push_bit 1 (push_bit 1 A0 OR A1)"

definition spec_data_bus_address :: "int \<Rightarrow> int \<Rightarrow> int" where
  "spec_data_bus_address A0 A1 = 0x50 OR spec_mask A0 A1"

definition spec_control_bus_address :: "int \<Rightarrow> int \<Rightarrow> int" where
  "spec_control_bus_address A0 A1 = 0x18 OR spec_mask A0 A1"

text \<open>
  The spec's "faithful in-memory simulation of the device": the simulated chip sits on
  the bus at the two addresses the handle talks to, and those differ.
\<close>

definition attached :: "SerialRAM \<Rightarrow> TwoWire \<Rightarrow> bool" where
  "attached this Wire =
     (data_address (chip Wire) = SRAM_REGISTER this \<and>
      control_address (chip Wire) = CONTROL_REGISTER this \<and>
      SRAM_REGISTER this \<noteq> CONTROL_REGISTER this)"

subsection \<open>A concrete set-up\<close>

text \<open>
  A handle before \<^verbatim>\<open>begin\<close>, a blank 16-kbit chip (2048 bytes) strapped to the
  addresses \<open>0x50\<close> and \<open>0x18\<close>, and an idle bus with that chip; then the handle and
  the bus after \<^verbatim>\<open>begin(0, 0, 16)\<close>.
\<close>

definition unconfigured :: SerialRAM where
  "unconfigured = \<lparr>SRAM_REGISTER = 0, CONTROL_REGISTER = 0, STORAGE_ARRAY_SIZE = 0\<rparr>"

definition blank_chip :: eeram where
  "blank_chip =
     \<lparr>data_address = 0x50, control_address = 0x18, array_bytes = 2048,
      sram = (\<lambda>_. 0), eeprom = (\<lambda>_. 0), pointer = 0, status = 0\<rparr>"

definition idle_bus :: TwoWire where
  "idle_bus = \<lparr>calls = [], txAddress = 0, txBuffer = [], rxBuffer = [], chip = blank_chip\<rparr>"

definition this16 :: SerialRAM where
  "this16 = fst (snd (SerialRAM_begin 0 0 16 unconfigured idle_bus))"

definition Wire16 :: TwoWire where
  "Wire16 = snd (snd (SerialRAM_begin 0 0 16 unconfigured idle_bus))"

text \<open>
  Two more buses for the same handle: one whose chip has the event flag, write-protect
  level 7 and the mismatch flag set in its control register (\<open>0x9D\<close>), and one on which
  no chip answers at the handle's addresses.
\<close>

definition Wire16_flags :: TwoWire where
  "Wire16_flags = Wire16\<lparr>chip := blank_chip\<lparr>status := 0x9d\<rparr>\<rparr>"

definition Wire16_absent :: TwoWire where
  "Wire16_absent = Wire16\<lparr>chip := blank_chip\<lparr>data_address := 0x51, control_address := 0x19\<rparr>\<rparr>"

section \<open>Auxiliary facts\<close>

lemma word8_eq_bits:
  "((x::8 word) = y) =
     (bit x 0 = bit y 0 \<and> bit x 1 = bit y 1 \<and> bit x 2 = bit y 2 \<and> bit x 3 = bit y 3 \<and>
      bit x 4 = bit y 4 \<and> bit x 5 = bit y 5 \<and> bit x 6 = bit y 6 \<and> bit x 7 = bit y 7)"
proof -
  have "(x = y) = (\<forall>n<8. bit x n = bit y n)"
    by (auto intro: bit_word_eqI)
  also have "\<dots> = (\<forall>n\<in>{0,1,2,3,4,5,6,7::nat}. bit x n = bit y n)"
  proof -
    have "{n::nat. n < 8} = {0,1,2,3,4,5,6,7}" by auto
    then show ?thesis by blast
  qed
  finally show ?thesis by simp
qed

lemma level_fits_iff: "((p::8 word) AND 0xf8 \<noteq> 0) = (7 < p)"
proof -
  have "(p AND 0xf8 = 0) = (take_bit 3 p = p)"
    by (simp add: word8_eq_bits bit_and_iff bit_take_bit_iff)
  also have "\<dots> = (take_bit 3 (uint p) = uint p)"
    by (simp add: word_uint_eq_iff unsigned_take_bit_eq)
  also have "\<dots> = (uint p < 8)"
    by (simp add: take_bit_int_eq_self_iff)
  finally have "(p AND 0xf8 = 0) = (uint p < 8)" .
  moreover have "(7 < p) = (\<not> uint p < 8)"
    by (auto simp: word_less_def)
  ultimately show ?thesis by simp
qed

lemma promoted_and: "uint (x::8 word) AND sint (y::8 word) = uint (x AND y)"
  by (rule bit_eqI)
    (auto simp: bit_and_iff bit_uint_iff bit_sint_iff min_def dest: bit_imp_le_length)

lemma promoted_and16: "(ucast (x::8 word) :: 16 word) AND scast (y::8 word) = ucast (x AND y)"
  by (rule bit_eqI)
    (auto simp: bit_and_iff bit_word_ucast_iff bit_word_scast_iff min_def
      dest: bit_imp_le_length)

lemma promoted_test: "(uint (x::8 word) AND sint (y::8 word) \<noteq> 0) = (x AND y \<noteq> 0)"
  by (simp add: promoted_and uint_0_iff)

lemma promoted_test16:
  "((ucast (x::8 word) :: 16 word) AND scast (y::8 word) \<noteq> 0) = (x AND y \<noteq> 0)"
proof -
  have "((ucast z :: 16 word) = 0) = (z = 0)" for z :: "8 word"
    by (auto simp: bit_eq_iff bit_word_ucast_iff dest: bit_imp_le_length)
  then show ?thesis by (simp add: promoted_and16)
qed

lemma endTransmission_status:
  "fst (Wire_endTransmission w) = 0 \<or> fst (Wire_endTransmission w) = 2"
  by (auto simp: Wire_endTransmission_def chip_receive_def
      split: list.splits prod.splits if_splits)

lemma calls_endTransmission:
  "calls (snd (Wire_endTransmission w)) = calls w @ [CallEndTransmission]"
  by (simp add: Wire_endTransmission_def split: prod.splits)

lemma bit7_test: "((b::8 word) AND 0x80 \<noteq> 0) = bit b 7"
  using bit_iff_and_push_bit_not_eq_0 [of b 7] by simp

lemma fold_invoke_handle: "fst (fold invoke cs (this, Wire)) = this"
proof (induction cs arbitrary: Wire)
  case Nil
  show ?case by simp
next
  case (Cons c cs)
  obtain W where "invoke c (this, Wire) = (this, W)"
    by (cases c) simp_all
  with Cons show ?case by simp
qed

lemma this16_fields:
  "SRAM_REGISTER this16 = 0x50" "CONTROL_REGISTER this16 = 0x18"
  "STORAGE_ARRAY_SIZE this16 = 0xf8"
  by (simp_all add: this16_def SerialRAM_begin_def unconfigured_def)

lemma Wire16_chip: "chip Wire16 = blank_chip"
  by (simp add: Wire16_def SerialRAM_begin_def Wire_begin_def idle_bus_def)

lemma attached16: "attached this16 Wire16"
  by (simp add: attached_def this16_fields Wire16_chip blank_chip_def)

lemma Wire_endTransmission_eq:
  "Wire_endTransmission w =
     (fst (chip_receive (txAddress w) (txBuffer w) (chip w)),
      w\<lparr>calls := calls w @ [CallEndTransmission], txBuffer := [],
        chip := snd (chip_receive (txAddress w) (txBuffer w) (chip w))\<rparr>)"
  by (simp add: Wire_endTransmission_def split_beta)

lemma chip_receive_nothing: "snd (chip_receive a [] c) = c"
  by (simp add: chip_receive_def)

lemma chip_receive_selector:
  "data_address c \<noteq> control_address c \<Longrightarrow> chip_receive (control_address c) [r] c = (0, c)"
  by (simp add: chip_receive_def)

lemma chip_receive_status:
  "data_address c \<noteq> control_address c \<Longrightarrow>
   chip_receive (control_address c) [0, b] c =
     (0, c\<lparr>status := (status c AND 0x80) OR (b AND 0x1f)\<rparr>)"
  by (simp add: chip_receive_def)

lemma chip_transmit_status:
  "data_address c \<noteq> control_address c \<Longrightarrow>
   chip_transmit (control_address c) (Suc 0) c = ([status c], c)"
  by (simp add: chip_transmit_def)

lemma readControlRegister_attached:
  assumes "attached this Wire"
  shows "fst (readControlRegister this Wire) = status (chip Wire)"
    and "chip (snd (readControlRegister this Wire)) = chip Wire"
proof -
  let ?c = "chip Wire"
  from assms have a: "CONTROL_REGISTER this = control_address ?c"
    and d: "data_address ?c \<noteq> control_address ?c"
    by (simp_all add: attached_def)
  define W1 where "W1 = Wire_write 0x00 (Wire_beginTransmission (CONTROL_REGISTER this) Wire)"
  have W1: "txAddress W1 = control_address ?c" "txBuffer W1 = [0]" "chip W1 = ?c"
    by (simp_all add: W1_def Wire_write_def Wire_beginTransmission_def BUFFER_LENGTH_def a)
  define W2 where "W2 = snd (Wire_endTransmission W1)"
  have W2: "txAddress W2 = control_address ?c" "txBuffer W2 = []" "chip W2 = ?c"
    by (simp_all add: W2_def Wire_endTransmission_eq W1 chip_receive_selector [OF d])
  define W3 where "W3 = Wire_requestFrom (CONTROL_REGISTER this) 1 W2"
  have W3: "txAddress W3 = control_address ?c" "txBuffer W3 = []" "chip W3 = ?c"
    "rxBuffer W3 = [status ?c]"
    by (simp_all add: W3_def Wire_requestFrom_def W2 a BUFFER_LENGTH_def
        chip_transmit_status [OF d])
  define W4 where "W4 = snd (Wire_read W3)"
  have W4: "txAddress W4 = control_address ?c" "txBuffer W4 = []" "chip W4 = ?c"
    "fst (Wire_read W3) = status ?c"
    by (simp_all add: W4_def Wire_read_def W3)
  have r: "readControlRegister this Wire = (fst (Wire_read W3), snd (Wire_endTransmission W4))"
    by (simp add: readControlRegister_def Let_def split_beta W1_def W2_def W3_def W4_def)
  show "fst (readControlRegister this Wire) = status (chip Wire)"
    by (simp add: r W4)
  show "chip (snd (readControlRegister this Wire)) = chip Wire"
    by (simp add: r Wire_endTransmission_eq W4 chip_receive_nothing)
qed

lemma control_write_calls:
  "calls (snd (Wire_endTransmission
          (Wire_write b (Wire_write 0x00 (Wire_beginTransmission a W))))) =
   calls W @ [CallBeginTransmission a, CallWrite 0x00, CallWrite b, CallEndTransmission]"
  by (simp add: calls_endTransmission Wire_write_def Wire_beginTransmission_def)

lemma control_write_chip:
  assumes "data_address (chip W) \<noteq> control_address (chip W)"
  shows "chip (snd (Wire_endTransmission
          (Wire_write b (Wire_write 0x00 (Wire_beginTransmission (control_address (chip W)) W))))) =
         (chip W)\<lparr>status := (status (chip W) AND 0x80) OR (b AND 0x1f)\<rparr>"
  by (simp add: Wire_endTransmission_eq Wire_write_def Wire_beginTransmission_def
      BUFFER_LENGTH_def chip_receive_status [OF assms])

lemma read_attached:
  assumes "attached this Wire" and "a8 address 1 AND STORAGE_ARRAY_SIZE this = 0"
  shows "fst (SerialRAM_read address this Wire) =
           sram (chip Wire) (cell (chip Wire) (word_cat (a8 address 1) (a8 address 0)))"
  using assms
  by (simp add: attached_def SerialRAM_read_def Wire_endTransmission_def
      Wire_write_def Wire_beginTransmission_def Wire_requestFrom_def Wire_read_def
      BUFFER_LENGTH_def chip_receive_def chip_transmit_def cell_def Let_def)

lemma level_field:
  "(p::8 word) AND 0xf8 = 0 \<Longrightarrow>
   drop_bit 2 (((s AND 0x80) OR (((b AND 0xe3) OR push_bit 2 p) AND 0x1f)) AND 0x1c) = p"
  by (simp add: word8_eq_bits bit_and_iff bit_or_iff bit_push_bit_iff bit_drop_bit_eq)

lemma setWriteProtect_valid:
  assumes "prot AND 0xf8 = 0"
  shows "setWriteProtect prot this Wire =
          (0, snd (Wire_endTransmission
                (Wire_write ((fst (readControlRegister this Wire) AND 0xe3) OR push_bit 2 prot)
                  (Wire_write 0x00
                    (Wire_beginTransmission (CONTROL_REGISTER this)
                      (snd (readControlRegister this Wire)))))))"
  using assms by (simp add: setWriteProtect_def Let_def split_beta)

lemma setAutoStore_eq:
  "setAutoStore val this Wire =
     snd (Wire_endTransmission
       (Wire_write (if val then fst (readControlRegister this Wire) OR 0x02
                    else fst (readControlRegister this Wire) AND 0xfd)
         (Wire_write 0x00
           (Wire_beginTransmission (CONTROL_REGISTER this)
             (snd (readControlRegister this Wire))))))"
  by (simp add: setAutoStore_def Let_def split_beta)

lemma setEventBit_eq:
  "setEventBit val this Wire =
     snd (Wire_endTransmission
       (Wire_write (if val then fst (readControlRegister this Wire) OR 0x01
                    else fst (readControlRegister this Wire) AND 0xfe)
         (Wire_write 0x00
           (Wire_beginTransmission (CONTROL_REGISTER this)
             (snd (readControlRegister this Wire))))))"
  by (simp add: setEventBit_def Let_def split_beta)

lemma autostore_field:
  "((if val then (b::8 word) OR 0x02 else b AND 0xfd) AND 0xfd) = b AND 0xfd"
  "bit (if val then (b::8 word) OR 0x02 else b AND 0xfd) 1 = val"
  by (simp_all add: word8_eq_bits bit_and_iff bit_or_iff)

lemma event_field:
  "((if val then (b::8 word) OR 0x01 else b AND 0xfe) AND 0xfe) = b AND 0xfe"
  "bit (if val then (b::8 word) OR 0x01 else b AND 0xfe) 0 = val"
  by (simp_all add: word8_eq_bits bit_and_iff bit_or_iff)

lemma protect_field:
  assumes "(p::8 word) AND 0xf8 = 0"
  shows "((b AND 0xe3) OR push_bit 2 p) AND 0xe3 = b AND 0xe3"
    and "drop_bit 2 (((b AND 0xe3) OR push_bit 2 p) AND 0x1c) = p"
  using assms
  by (simp_all add: word8_eq_bits bit_and_iff bit_or_iff bit_push_bit_iff bit_drop_bit_eq)

lemma attached16_flags: "attached this16 Wire16_flags"
  by (simp add: attached_def this16_fields Wire16_flags_def blank_chip_def)

lemma write_back_chip:
  assumes "attached this Wire"
  shows "chip (snd (Wire_endTransmission
           (Wire_write b (Wire_write 0x00
             (Wire_beginTransmission (CONTROL_REGISTER this)
               (snd (readControlRegister this Wire))))))) =
         (chip Wire)\<lparr>status := (status (chip Wire) AND 0x80) OR (b AND 0x1f)\<rparr>"
proof -
  let ?W1 = "snd (readControlRegister this Wire)"
  from assms have a: "CONTROL_REGISTER this = control_address (chip Wire)"
    and d: "data_address (chip Wire) \<noteq> control_address (chip Wire)"
    by (simp_all add: attached_def)
  have c1: "chip ?W1 = chip Wire"
    by (rule readControlRegister_attached [OF assms])
  have d1: "data_address (chip ?W1) \<noteq> control_address (chip ?W1)"
    using d c1 by simp
  show ?thesis
    using control_write_chip [OF d1, of b] by (simp add: c1 a)
qed

lemma setAutoStore_chip:
  assumes "attached this Wire"
  shows "chip (setAutoStore val this Wire) =
           (chip Wire)\<lparr>status := (status (chip Wire) AND 0x80) OR
              ((if val then status (chip Wire) OR 0x02 else status (chip Wire) AND 0xfd)
                 AND 0x1f)\<rparr>"
  by (simp only: setAutoStore_eq write_back_chip [OF assms]
      readControlRegister_attached [OF assms])

lemma setEventBit_chip:
  assumes "attached this Wire"
  shows "chip (setEventBit val this Wire) =
           (chip Wire)\<lparr>status := (status (chip Wire) AND 0x80) OR
              ((if val then status (chip Wire) OR 0x01 else status (chip Wire) AND 0xfe)
                 AND 0x1f)\<rparr>"
  by (simp only: setEventBit_eq write_back_chip [OF assms]
      readControlRegister_attached [OF assms])

lemma setWriteProtect_chip:
  assumes "attached this Wire" and "prot AND 0xf8 = 0"
  shows "chip (snd (setWriteProtect prot this Wire)) =
           (chip Wire)\<lparr>status := (status (chip Wire) AND 0x80) OR
              (((status (chip Wire) AND 0xe3) OR push_bit 2 prot) AND 0x1f)\<rparr>"
  by (simp only: setWriteProtect_valid [OF assms(2)] snd_conv write_back_chip [OF assms(1)]
      readControlRegister_attached [OF assms(1)])

lemma setAutoStore_status:
  assumes "attached this Wire"
  shows "status (chip (setAutoStore val this Wire)) =
           (status (chip Wire) AND 0x80) OR
              ((if val then status (chip Wire) OR 0x02 else status (chip Wire) AND 0xfd)
                 AND 0x1f)"
  by (subst setAutoStore_chip [OF assms]) simp

lemma setEventBit_status:
  assumes "attached this Wire"
  shows "status (chip (setEventBit val this Wire)) =
           (status (chip Wire) AND 0x80) OR
              ((if val then status (chip Wire) OR 0x01 else status (chip Wire) AND 0xfe)
                 AND 0x1f)"
  by (subst setEventBit_chip [OF assms]) simp

lemma setWriteProtect_status:
  assumes "attached this Wire" and "prot AND 0xf8 = 0"
  shows "status (chip (snd (setWriteProtect prot this Wire))) =
           (status (chip Wire) AND 0x80) OR
              (((status (chip Wire) AND 0xe3) OR push_bit 2 prot) AND 0x1f)"
  by (subst setWriteProtect_chip [OF assms]) simp

lemma autostore_register:
  "((s AND 0x80) OR ((if val then (s::8 word) OR 0x02 else s AND 0xfd) AND 0x1f)) AND 0x9d =
     s AND 0x9d"
  "bit ((s AND 0x80) OR ((if val then (s::8 word) OR 0x02 else s AND 0xfd) AND 0x1f)) 1 = val"
  by (simp_all add: word8_eq_bits bit_and_iff bit_or_iff)

lemma event_register:
  "((s AND 0x80) OR ((if val then (s::8 word) OR 0x01 else s AND 0xfe) AND 0x1f)) AND 0x9e =
     s AND 0x9e"
  "bit ((s AND 0x80) OR ((if val then (s::8 word) OR 0x01 else s AND 0xfe) AND 0x1f)) 0 = val"
  by (simp_all add: word8_eq_bits bit_and_iff bit_or_iff)

lemma protect_register:
  assumes "(p::8 word) AND 0xf8 = 0"
  shows "((s AND 0x80) OR (((s AND 0xe3) OR push_bit 2 p) AND 0x1f)) AND 0x83 = s AND 0x83"
  using assms
  by (simp add: word8_eq_bits bit_and_iff bit_or_iff bit_push_bit_iff)

lemma block_bounds_test:
  "(fst (SerialRAM_write_values address values size1 this Wire) = 5) =
     (a8 address 1 AND STORAGE_ARRAY_SIZE this \<noteq> 0)"
  "a8 address 1 AND STORAGE_ARRAY_SIZE this \<noteq> 0 \<Longrightarrow>
     SerialRAM_read_values address size1 this Wire = (Some 5, [], Wire)"
proof -
  have w: "fst (Wire_endTransmission w) \<noteq> 5" for w
    using endTransmission_status [of w] by auto
  show "(fst (SerialRAM_write_values address values size1 this Wire) = 5) =
     (a8 address 1 AND STORAGE_ARRAY_SIZE this \<noteq> 0)"
    by (simp add: SerialRAM_write_values_def promoted_test Let_def w)
  show "a8 address 1 AND STORAGE_ARRAY_SIZE this \<noteq> 0 \<Longrightarrow>
     SerialRAM_read_values address size1 this Wire = (Some 5, [], Wire)"
    by (simp add: SerialRAM_read_values_def promoted_test16 Let_def)
qed

section \<open>The claims\<close>

text \<open>
  Claim C1. For pins \<open>A0\<close>, \<open>A1\<close> in \<open>{0, 1}\<close> and a density in \<open>{4, 16}\<close>, after
  \<^verbatim>\<open>begin\<close> the data bus address of the handle is \<open>0x50 | ((A0<<1 | A1)<<1)\<close> and its
  control bus address is \<open>0x18 | ((A0<<1 | A1)<<1)\<close>, the formulas of the spec on
  integers; and whatever methods are called on the handle afterwards (any list \<open>cs\<close>
  of calls other than \<^verbatim>\<open>begin\<close>), the handle is the one \<^verbatim>\<open>begin\<close> left, so both
  addresses stay fixed.
\<close>

theorem begin_bus_addresses:
  assumes "A0 \<in> {0, 1}" and "A1 \<in> {0, 1}" and "SIZE \<in> {4, 16}"
  shows "sint (SRAM_REGISTER (fst (snd (SerialRAM_begin A0 A1 SIZE this Wire)))) =
           spec_data_bus_address (uint A0) (uint A1) \<and>
         sint (CONTROL_REGISTER (fst (snd (SerialRAM_begin A0 A1 SIZE this Wire)))) =
           spec_control_bus_address (uint A0) (uint A1) \<and>
         fst (fold invoke cs (snd (SerialRAM_begin A0 A1 SIZE this Wire))) =
           fst (snd (SerialRAM_begin A0 A1 SIZE this Wire))"
proof -
  have "sint (SRAM_REGISTER (fst (snd (SerialRAM_begin A0 A1 SIZE this Wire)))) =
           spec_data_bus_address (uint A0) (uint A1)"
    using assms(1,2)
    by (auto simp: SerialRAM_begin_def Let_def spec_data_bus_address_def spec_mask_def)
  moreover have "sint (CONTROL_REGISTER (fst (snd (SerialRAM_begin A0 A1 SIZE this Wire)))) =
           spec_control_bus_address (uint A0) (uint A1)"
    using assms(1,2)
    by (auto simp: SerialRAM_begin_def Let_def spec_control_bus_address_def spec_mask_def)
  moreover have "fst (fold invoke cs (snd (SerialRAM_begin A0 A1 SIZE this Wire))) =
           fst (snd (SerialRAM_begin A0 A1 SIZE this Wire))"
    using fold_invoke_handle [of cs "fst (snd (SerialRAM_begin A0 A1 SIZE this Wire))"
        "snd (snd (SerialRAM_begin A0 A1 SIZE this Wire))"]
    by simp
  ultimately show ?thesis by blast
qed

theorem begin_bus_addresses_witness:
  "(1::8 word) \<in> {0, 1} \<and> (0::8 word) \<in> {0, 1} \<and> (4::8 word) \<in> {4, 16} \<and>
   sint (SRAM_REGISTER (fst (snd (SerialRAM_begin 1 0 4 unconfigured idle_bus)))) = 0x54 \<and>
   sint (CONTROL_REGISTER (fst (snd (SerialRAM_begin 1 0 4 unconfigured idle_bus)))) = 0x1c \<and>
   fst (fold invoke [Write 0x0010 0x7f, SetAutoStore True, Store, Read 0x0010]
         (snd (SerialRAM_begin 1 0 4 unconfigured idle_bus))) =
     fst (snd (SerialRAM_begin 1 0 4 unconfigured idle_bus))"
  using begin_bus_addresses [of 1 0 4 unconfigured idle_bus
      "[Write 0x0010 0x7f, SetAutoStore True, Store, Read 0x0010]"]
  by (simp add: spec_data_bus_address_def spec_control_bus_address_def spec_mask_def)

text \<open>
  Claim C2, as the code has it. When the high byte of the offset ANDed with the
  capacity mask is not zero, the single-byte \<^verbatim>\<open>write\<close> returns 5 (address out of
  bounds) and the single-byte \<^verbatim>\<open>read\<close> returns the value 0, and neither touches the
  bus: the bus, with its list of calls, is returned as it was. \<^verbatim>\<open>read\<close> has one
  result, the byte, and no status beside it.
\<close>

theorem out_of_bounds_byte_access:
  assumes "a8 address 1 AND STORAGE_ARRAY_SIZE this \<noteq> 0"
  shows "SerialRAM_write address val this Wire = (5, Wire) \<and>
         SerialRAM_read address this Wire = (0, Wire)"
  using assms by (simp add: SerialRAM_write_def SerialRAM_read_def)

theorem out_of_bounds_byte_access_witness:
  "a8 0x0800 1 AND STORAGE_ARRAY_SIZE this16 \<noteq> 0 \<and>
   SerialRAM_write 0x0800 0x2a this16 Wire16 = (5, Wire16) \<and>
   SerialRAM_read 0x0800 this16 Wire16 = (0, Wire16)"
proof -
  have h: "a8 0x0800 1 AND STORAGE_ARRAY_SIZE this16 \<noteq> 0"
    by (simp add: a8_def this16_fields)
  show ?thesis
    using h out_of_bounds_byte_access [OF h, of "0x2a" Wire16] by simp
qed

text \<open>
  The out-of-bounds status does not come out of \<^verbatim>\<open>read\<close>. On a handle for density 16
  the offset \<open>0x0800\<close> is out of bounds; what \<^verbatim>\<open>read\<close> returns there is not the code
  5 but the byte 0, the very result of reading the in-bounds, blank cell at offset 0.
\<close>

theorem read_out_of_bounds_no_status:
  "fst (SerialRAM_read 0x0800 this16 Wire16) \<noteq> 5 \<and>
   fst (SerialRAM_read 0x0800 this16 Wire16) = fst (SerialRAM_read 0x0000 this16 Wire16)"
proof -
  have "SerialRAM_read 0x0800 this16 Wire16 = (0, Wire16)"
    by (simp add: SerialRAM_read_def a8_def this16_fields)
  moreover have "fst (SerialRAM_read 0x0000 this16 Wire16) = 0"
    using read_attached [OF attached16, of 0]
    by (simp add: a8_def this16_fields Wire16_chip blank_chip_def)
  ultimately show ?thesis by simp
qed

text \<open>
  Claim C3, as the code has it. With the simulated chip attached to the bus at the
  handle's addresses and an offset in bounds, \<^verbatim>\<open>write(address, val)\<close> returns 0
  (success) and the \<^verbatim>\<open>read(address)\<close> that follows returns the value \<open>val\<close>. The
  byte is all that \<^verbatim>\<open>read\<close> returns: it has no status beside it.
\<close>

theorem write_read_round_trip:
  assumes "attached this Wire" and "a8 address 1 AND STORAGE_ARRAY_SIZE this = 0"
  shows "fst (SerialRAM_write address val this Wire) = 0 \<and>
         fst (SerialRAM_read address this (snd (SerialRAM_write address val this Wire))) = val"
  using assms
  by (simp add: attached_def SerialRAM_write_def SerialRAM_read_def Wire_endTransmission_def
      Wire_write_def Wire_beginTransmission_def Wire_requestFrom_def Wire_read_def
      BUFFER_LENGTH_def chip_receive_def chip_transmit_def cell_def Let_def)

theorem write_read_round_trip_witness:
  "attached this16 Wire16 \<and> a8 0x0123 1 AND STORAGE_ARRAY_SIZE this16 = 0 \<and>
   fst (SerialRAM_write 0x0123 0xab this16 Wire16) = 0 \<and>
   fst (SerialRAM_read 0x0123 this16 (snd (SerialRAM_write 0x0123 0xab this16 Wire16))) = 0xab"
proof -
  have h: "a8 0x0123 1 AND STORAGE_ARRAY_SIZE this16 = 0"
    by (simp add: a8_def this16_fields)
  show ?thesis
    using h attached16 write_read_round_trip [OF attached16 h, of "0xab"] by simp
qed

text \<open>
  No status comes out of \<^verbatim>\<open>read\<close> in the round trip. After \<^verbatim>\<open>write(0x0123, 0xAB)\<close>
  the one result of \<^verbatim>\<open>read(0x0123)\<close> is the byte \<open>0xAB\<close>, not the success code 0;
  and after \<^verbatim>\<open>write(0x0123, 0xFF)\<close> it is the very result \<^verbatim>\<open>read\<close> gives when no
  chip answers, so its result does not tell success from failure.
\<close>

theorem read_round_trip_no_status:
  "fst (SerialRAM_read 0x0123 this16 (snd (SerialRAM_write 0x0123 0xab this16 Wire16))) \<noteq> 0 \<and>
   fst (SerialRAM_read 0x0123 this16 (snd (SerialRAM_write 0x0123 0xff this16 Wire16))) =
     fst (SerialRAM_read 0x0123 this16 Wire16_absent)"
proof -
  have h: "a8 0x0123 1 AND STORAGE_ARRAY_SIZE this16 = 0"
    by (simp add: a8_def this16_fields)
  have r: "fst (SerialRAM_read 0x0123 this16 (snd (SerialRAM_write 0x0123 v this16 Wire16))) = v"
    for v
    using attached16 h
    by (simp add: attached_def SerialRAM_write_def SerialRAM_read_def Wire_endTransmission_def
      Wire_write_def Wire_beginTransmission_def Wire_requestFrom_def Wire_read_def
      BUFFER_LENGTH_def chip_receive_def chip_transmit_def cell_def Let_def)
  have n: "fst (SerialRAM_read 0x0123 this16 Wire16_absent) = 0xff"
    using h
    by (simp add: SerialRAM_read_def Wire_endTransmission_def
      Wire_write_def Wire_beginTransmission_def Wire_requestFrom_def Wire_read_def
      BUFFER_LENGTH_def chip_receive_def chip_transmit_def Let_def this16_fields
      Wire16_absent_def blank_chip_def)
  show ?thesis by (simp add: r n)
qed

text \<open>
  Claim C4. \<^verbatim>\<open>begin\<close> with density 16 sets the capacity mask to \<open>0xF8\<close> and returns
  0 (success); with density 4 it sets \<open>0xFE\<close> and returns 0; with any other density
  it sets \<open>0xF8\<close> all the same and returns 1 (failure). In that last case the handle
  is exactly the one density 16 gives, addresses included, so it stays usable.
\<close>

theorem begin_capacity_mask:
  "STORAGE_ARRAY_SIZE (fst (snd (SerialRAM_begin A0 A1 SIZE this Wire))) =
     (if SIZE = 16 then 0xf8 else if SIZE = 4 then 0xfe else 0xf8) \<and>
   fst (SerialRAM_begin A0 A1 SIZE this Wire) =
     (if SIZE = 16 then 0 else if SIZE = 4 then 0 else 1) \<and>
   fst (snd (SerialRAM_begin A0 A1 SIZE this Wire)) =
     fst (snd (SerialRAM_begin A0 A1 (if SIZE = 4 then 4 else 16) this Wire))"
  by (simp add: SerialRAM_begin_def Let_def)

text \<open>
  Claim C5, at an input where the code breaks it. The block operations test only the
  high byte of the starting offset against the capacity mask, whatever the length. On
  a handle for density 16 the offset \<open>0x0010\<close> is in bounds: the block \<^verbatim>\<open>write\<close> of
  four bytes there returns the transport's status, 0, but the block \<^verbatim>\<open>read\<close> of four
  bytes reaches the end of the function without a \<^verbatim>\<open>return\<close> (\<open>None\<close>), so the status
  its caller receives is undefined and nothing keeps it from being 5.
\<close>

theorem read_values_in_bounds_no_return:
  "a8 0x0010 1 AND STORAGE_ARRAY_SIZE this16 = 0 \<and>
   fst (SerialRAM_read_values 0x0010 4 this16 Wire16) = None \<and>
   fst (SerialRAM_write_values 0x0010 [1, 2, 3, 4] 4 this16 Wire16) = 0"
proof -
  have h: "a8 0x0010 1 AND STORAGE_ARRAY_SIZE this16 = 0"
    by (simp add: a8_def this16_fields)
  have r: "fst (SerialRAM_read_values 0x0010 4 this16 Wire16) = None"
    using h by (simp add: SerialRAM_read_values_def promoted_test16 Let_def split_beta)
  have "fst (Wire_endTransmission w) = 0" if "txAddress w = data_address (chip w)" for w
    using that by (simp add: Wire_endTransmission_eq chip_receive_def split: list.splits)
  moreover have "\<not> (uint (a8 0x0010 1) AND sint (STORAGE_ARRAY_SIZE this16) \<noteq> 0)"
    using h by (simp add: promoted_test)
  ultimately have w: "fst (SerialRAM_write_values 0x0010 [1, 2, 3, 4] 4 this16 Wire16) = 0"
    by (simp add: SerialRAM_write_values_def promoted_test Let_def Wire_write_def
        Wire_beginTransmission_def this16_fields Wire16_chip blank_chip_def)
  from h r w show ?thesis by simp
qed

text \<open>
  Claim C6. The block \<^verbatim>\<open>read\<close> executes a \<^verbatim>\<open>return\<close> on the out-of-bounds path only,
  where it returns 5; for every in-bounds starting offset it reaches its end without
  one, and its status is undefined (\<open>None\<close>).
\<close>

theorem read_values_status:
  "fst (SerialRAM_read_values address size1 this Wire) =
     (if a8 address 1 AND STORAGE_ARRAY_SIZE this \<noteq> 0 then Some 5 else None)"
  by (simp add: SerialRAM_read_values_def promoted_test16 Let_def split_beta)

text \<open>
  Claim C7. For every level above 7, \<^verbatim>\<open>setWriteProtect\<close> returns 1 (invalid argument)
  and leaves the bus untouched; for every level from 0 to 7, with the simulated chip
  attached, it returns 0 and the \<^verbatim>\<open>getWriteProtect\<close> that follows returns that level.
\<close>

theorem write_protect_level:
  "(7 < prot \<longrightarrow> setWriteProtect prot this Wire = (1, Wire)) \<and>
   (prot \<le> 7 \<and> attached this Wire \<longrightarrow>
      fst (setWriteProtect prot this Wire) = 0 \<and>
      fst (getWriteProtect this (snd (setWriteProtect prot this Wire))) = prot)"
proof (intro conjI impI)
  assume "7 < prot"
  then have "prot AND 0xf8 \<noteq> 0" by (simp add: level_fits_iff)
  then show "setWriteProtect prot this Wire = (1, Wire)"
    by (simp add: setWriteProtect_def)
next
  assume h: "prot \<le> 7 \<and> attached this Wire"
  then have fits: "prot AND 0xf8 = 0"
    using level_fits_iff [of prot] by auto
  from h have att: "attached this Wire" by simp
  then have a: "CONTROL_REGISTER this = control_address (chip Wire)"
    and s: "SRAM_REGISTER this = data_address (chip Wire)"
    and d: "data_address (chip Wire) \<noteq> control_address (chip Wire)"
    by (simp_all add: attached_def)
  let ?b = "(status (chip Wire) AND 0xe3) OR push_bit 2 prot"
  let ?W1 = "snd (readControlRegister this Wire)"
  let ?W' = "snd (setWriteProtect prot this Wire)"
  have c1: "chip ?W1 = chip Wire"
    by (rule readControlRegister_attached [OF att])
  have d1: "data_address (chip ?W1) \<noteq> control_address (chip ?W1)"
    using d c1 by simp
  have "chip ?W' = (chip ?W1)\<lparr>status := (status (chip ?W1) AND 0x80) OR (?b AND 0x1f)\<rparr>"
    using control_write_chip [OF d1, of ?b]
    by (simp add: setWriteProtect_valid [OF fits] readControlRegister_attached [OF att] a)
  then have chip': "chip ?W' = (chip Wire)\<lparr>status := (status (chip Wire) AND 0x80) OR (?b AND 0x1f)\<rparr>"
    by (simp add: c1)
  then have st': "status (chip ?W') = (status (chip Wire) AND 0x80) OR (?b AND 0x1f)"
    by simp
  from chip' have att': "attached this ?W'"
    using att by (simp add: attached_def)
  show "fst (setWriteProtect prot this Wire) = 0"
    by (simp add: setWriteProtect_valid [OF fits])
  have "fst (getWriteProtect this ?W') = drop_bit 2 (status (chip ?W') AND 0x1c)"
    by (simp add: getWriteProtect_def split_beta readControlRegister_attached [OF att'])
  also have "\<dots> = drop_bit 2 (((status (chip Wire) AND 0x80) OR (?b AND 0x1f)) AND 0x1c)"
    by (simp only: st')
  also have "\<dots> = prot"
    by (rule level_field [OF fits])
  finally show "fst (getWriteProtect this ?W') = prot" .
qed

theorem write_protect_level_witness:
  "7 < (8::8 word) \<and>
   setWriteProtect 8 this16 Wire16 = (1, Wire16) \<and>
   ((5::8 word) \<le> 7 \<and> attached this16 Wire16) \<and>
   fst (setWriteProtect 5 this16 Wire16) = 0 \<and>
   fst (getWriteProtect this16 (snd (setWriteProtect 5 this16 Wire16))) = 5"
  using write_protect_level [of 8 this16 Wire16] write_protect_level [of 5 this16 Wire16]
    attached16
  by simp

text \<open>
  Claim C8. Each setter of a control bit first reads the control register and then
  sends, in one transaction to the control bus address, the selector \<open>0x00\<close> and a byte
  \<open>b'\<close> that differs from the byte just read only in the setter's own field:
  \<^verbatim>\<open>setAutoStore\<close> only in bit 1 (\<open>b'\<close> and the byte read agree under the mask
  \<open>0xFD\<close>), \<^verbatim>\<open>setEventBit\<close> only in bit 0 (mask \<open>0xFE\<close>), and \<^verbatim>\<open>setWriteProtect\<close>,
  for a level it accepts, only in bits 2-4 (mask \<open>0xE3\<close>); the field itself holds the
  value asked for. With the simulated chip attached, the byte read is the chip's
  control register, and after the setter the register differs from what it was only
  in that field: \<^verbatim>\<open>setAutoStore\<close> leaves bits 0, 2-4 and 7 as they were (mask
  \<open>0x9D\<close>) and makes bit 1 the value asked for, \<^verbatim>\<open>setEventBit\<close> leaves bits 1-4 and 7
  (mask \<open>0x9E\<close>), \<^verbatim>\<open>setWriteProtect\<close> leaves bits 0, 1 and 7 (mask \<open>0x83\<close>) and
  stores the level in bits 2-4.
\<close>

theorem control_setters_frame:
  "(\<exists>b'. calls (setAutoStore val this Wire) =
            calls (snd (readControlRegister this Wire)) @
              [CallBeginTransmission (CONTROL_REGISTER this), CallWrite 0x00,
               CallWrite b', CallEndTransmission] \<and>
          b' AND 0xfd = fst (readControlRegister this Wire) AND 0xfd \<and>
          bit b' 1 = val) \<and>
   (\<exists>b'. calls (setEventBit val this Wire) =
            calls (snd (readControlRegister this Wire)) @
              [CallBeginTransmission (CONTROL_REGISTER this), CallWrite 0x00,
               CallWrite b', CallEndTransmission] \<and>
          b' AND 0xfe = fst (readControlRegister this Wire) AND 0xfe \<and>
          bit b' 0 = val) \<and>
   (prot \<le> 7 \<longrightarrow>
     (\<exists>b'. calls (snd (setWriteProtect prot this Wire)) =
            calls (snd (readControlRegister this Wire)) @
              [CallBeginTransmission (CONTROL_REGISTER this), CallWrite 0x00,
               CallWrite b', CallEndTransmission] \<and>
          b' AND 0xe3 = fst (readControlRegister this Wire) AND 0xe3 \<and>
          drop_bit 2 (b' AND 0x1c) = prot)) \<and>
   (attached this Wire \<longrightarrow>
      fst (readControlRegister this Wire) = status (chip Wire) \<and>
      status (chip (setAutoStore val this Wire)) AND 0x9d = status (chip Wire) AND 0x9d \<and>
      bit (status (chip (setAutoStore val this Wire))) 1 = val \<and>
      status (chip (setEventBit val this Wire)) AND 0x9e = status (chip Wire) AND 0x9e \<and>
      bit (status (chip (setEventBit val this Wire))) 0 = val) \<and>
   (attached this Wire \<and> prot \<le> 7 \<longrightarrow>
      status (chip (snd (setWriteProtect prot this Wire))) AND 0x83 =
        status (chip Wire) AND 0x83 \<and>
      drop_bit 2 (status (chip (snd (setWriteProtect prot this Wire))) AND 0x1c) = prot)"
proof (intro conjI impI)
  let ?b = "fst (readControlRegister this Wire)"
  show "\<exists>b'. calls (setAutoStore val this Wire) =
            calls (snd (readControlRegister this Wire)) @
              [CallBeginTransmission (CONTROL_REGISTER this), CallWrite 0x00,
               CallWrite b', CallEndTransmission] \<and>
          b' AND 0xfd = ?b AND 0xfd \<and> bit b' 1 = val"
    by (rule exI [where x = "if val then ?b OR 0x02 else ?b AND 0xfd"])
      (simp only: setAutoStore_eq control_write_calls autostore_field simp_thms)
  show "\<exists>b'. calls (setEventBit val this Wire) =
            calls (snd (readControlRegister this Wire)) @
              [CallBeginTransmission (CONTROL_REGISTER this), CallWrite 0x00,
               CallWrite b', CallEndTransmission] \<and>
          b' AND 0xfe = ?b AND 0xfe \<and> bit b' 0 = val"
    by (rule exI [where x = "if val then ?b OR 0x01 else ?b AND 0xfe"])
      (simp only: setEventBit_eq control_write_calls event_field simp_thms)
next
  let ?b = "fst (readControlRegister this Wire)"
  assume "prot \<le> 7"
  then have fits: "prot AND 0xf8 = 0"
    using level_fits_iff [of prot] by auto
  show "\<exists>b'. calls (snd (setWriteProtect prot this Wire)) =
            calls (snd (readControlRegister this Wire)) @
              [CallBeginTransmission (CONTROL_REGISTER this), CallWrite 0x00,
               CallWrite b', CallEndTransmission] \<and>
          b' AND 0xe3 = ?b AND 0xe3 \<and> drop_bit 2 (b' AND 0x1c) = prot"
    by (rule exI [where x = "(?b AND 0xe3) OR push_bit 2 prot"])
      (simp only: setWriteProtect_valid [OF fits] snd_conv control_write_calls
        protect_field [OF fits] simp_thms)
next
  assume att: "attached this Wire"
  show "fst (readControlRegister this Wire) = status (chip Wire)"
    by (rule readControlRegister_attached [OF att])
  show "status (chip (setAutoStore val this Wire)) AND 0x9d = status (chip Wire) AND 0x9d"
    by (simp only: setAutoStore_status [OF att] autostore_register)
  show "bit (status (chip (setAutoStore val this Wire))) 1 = val"
    by (simp only: setAutoStore_status [OF att] autostore_register)
  show "status (chip (setEventBit val this Wire)) AND 0x9e = status (chip Wire) AND 0x9e"
    by (simp only: setEventBit_status [OF att] event_register)
  show "bit (status (chip (setEventBit val this Wire))) 0 = val"
    by (simp only: setEventBit_status [OF att] event_register)
next
  assume h: "attached this Wire \<and> prot \<le> 7"
  then have att: "attached this Wire" and fits: "prot AND 0xf8 = 0"
    using level_fits_iff [of prot] by auto
  show "status (chip (snd (setWriteProtect prot this Wire))) AND 0x83 =
        status (chip Wire) AND 0x83"
    by (simp only: setWriteProtect_status [OF att fits] protect_register [OF fits])
  show "drop_bit 2 (status (chip (snd (setWriteProtect prot this Wire))) AND 0x1c) = prot"
    by (simp only: setWriteProtect_status [OF att fits] level_field [OF fits])
qed

theorem control_setters_frame_witness:
  "attached this16 Wire16_flags \<and> (5::8 word) \<le> 7 \<and>
   status (chip Wire16_flags) = 0x9d \<and>
   fst (readControlRegister this16 Wire16_flags) = 0x9d \<and>
   status (chip (setAutoStore True this16 Wire16_flags)) AND 0x9d = 0x9d \<and>
   bit (status (chip (setAutoStore True this16 Wire16_flags))) 1 \<and>
   status (chip (setAutoStore True this16 Wire16_flags)) = 0x9f \<and>
   status (chip (setEventBit True this16 Wire16_flags)) AND 0x9e = 0x9c \<and>
   status (chip (setEventBit False this16 Wire16_flags)) = 0x9c \<and>
   status (chip (snd (setWriteProtect 5 this16 Wire16_flags))) AND 0x83 = 0x81 \<and>
   drop_bit 2 (status (chip (snd (setWriteProtect 5 this16 Wire16_flags))) AND 0x1c) = 5 \<and>
   status (chip (snd (setWriteProtect 5 this16 Wire16_flags))) = 0x95"
proof -
  have h: "(5::8 word) \<le> 7" by simp
  have f: "(5::8 word) AND 0xf8 = 0" by simp
  have s: "status (chip Wire16_flags) = 0x9d"
    by (simp add: Wire16_flags_def)
  have e1: "status (chip (setAutoStore True this16 Wire16_flags)) = 0x9f"
    by (simp add: setAutoStore_status [OF attached16_flags] s)
  have e2: "status (chip (setEventBit False this16 Wire16_flags)) = 0x9c"
    by (simp add: setEventBit_status [OF attached16_flags] s)
  have e3: "status (chip (snd (setWriteProtect 5 this16 Wire16_flags))) = 0x95"
    by (simp add: setWriteProtect_status [OF attached16_flags f] s)
  show ?thesis
    using attached16_flags h s e1 e2 e3
      control_setters_frame [of True this16 Wire16_flags 5]
    by simp
qed

text \<open>
  Claim C9. \<^verbatim>\<open>store\<close> adds to the bus exactly one transaction to the control bus
  address carrying the bytes \<open>0x55\<close>, \<open>0x33\<close>, and \<^verbatim>\<open>recall\<close> exactly one carrying
  \<open>0x55\<close>, \<open>0xDD\<close>; neither requests or reads a byte, and neither has a result other
  than the bus.
\<close>

theorem store_recall_bytes:
  "calls (store this Wire) =
     calls Wire @ [CallBeginTransmission (CONTROL_REGISTER this),
                   CallWrite 0x55, CallWrite 0x33, CallEndTransmission] \<and>
   calls (recall this Wire) =
     calls Wire @ [CallBeginTransmission (CONTROL_REGISTER this),
                   CallWrite 0x55, CallWrite 0xdd, CallEndTransmission]"
  by (simp add: store_def recall_def calls_endTransmission Wire_write_def
      Wire_beginTransmission_def Let_def)

text \<open>
  Claim C10. \<^verbatim>\<open>getMatch\<close> returns true exactly when bit 7 of the byte that
  \<^verbatim>\<open>readControlRegister\<close> read is 0; with the simulated chip attached that byte is
  the chip's status register.
\<close>

theorem getMatch_inverted:
  "fst (getMatch this Wire) = (\<not> bit (fst (readControlRegister this Wire)) 7) \<and>
   (attached this Wire \<longrightarrow> fst (getMatch this Wire) = (\<not> bit (status (chip Wire)) 7))"
proof -
  have g: "fst (getMatch this Wire) = (\<not> bit (fst (readControlRegister this Wire)) 7)"
    by (simp add: getMatch_def bit7_test split_beta)
  then show ?thesis
    by (simp add: readControlRegister_attached)
qed

theorem getMatch_inverted_witness:
  "attached this16 (Wire16\<lparr>chip := blank_chip\<lparr>status := 0x00\<rparr>\<rparr>) \<and>
   fst (getMatch this16 (Wire16\<lparr>chip := blank_chip\<lparr>status := 0x00\<rparr>\<rparr>)) \<and>
   attached this16 (Wire16\<lparr>chip := blank_chip\<lparr>status := 0x80\<rparr>\<rparr>) \<and>
   \<not> fst (getMatch this16 (Wire16\<lparr>chip := blank_chip\<lparr>status := 0x80\<rparr>\<rparr>))"
proof -
  have a0: "attached this16 (Wire16\<lparr>chip := blank_chip\<lparr>status := 0x00\<rparr>\<rparr>)"
    and a1: "attached this16 (Wire16\<lparr>chip := blank_chip\<lparr>status := 0x80\<rparr>\<rparr>)"
    by (simp_all add: attached_def this16_fields blank_chip_def)
  show ?thesis
    using a0 a1
      getMatch_inverted [THEN conjunct2, rule_format, OF a0]
      getMatch_inverted [THEN conjunct2, rule_format, OF a1]
    by simp
qed

end
